theory Spec2Isabelle
  imports Complex_Main
begin

section \<open>JavaScript values\<close>

text \<open>
  The handler works on values that arrive already parsed: the request body and the
  value \<open>JSON.parse\<close> makes of the model's reply. A number is a double: a finite value,
  \<open>NaN\<close> or an infinity (\<open>Infinite True\<close> is \<open>+Infinity\<close>); \<open>0\<close> and \<open>-0\<close> are both
  \<open>Finite 0\<close>. An object is the list of its own enumerable properties in enumeration
  order, each key once. A string is the list of its code units; \<open>char\<close> has the code
  units below 256.
\<close>

datatype jsnum = Finite rat | NaN | Infinite bool

datatype jsval =
    JUndefined
  | JNull
  | JBool bool
  | JNum jsnum
  | JStr string
  | JArr "jsval list"
  | JObj "(string \<times> jsval) list"

text \<open>The \<open>typeof\<close> operator.\<close>

fun typeof :: "jsval \<Rightarrow> string" where
  "typeof JUndefined = ''undefined''"
| "typeof JNull = ''object''"
| "typeof (JBool b) = ''boolean''"
| "typeof (JNum n) = ''number''"
| "typeof (JStr s) = ''string''"
| "typeof (JArr xs) = ''object''"
| "typeof (JObj kvs) = ''object''"

text \<open>
  Conversion to boolean, as \<open>!v\<close>, \<open>a || b\<close> and \<open>if (v)\<close> apply it: \<open>undefined\<close>,
  \<open>null\<close>, \<open>false\<close>, \<open>0\<close>, \<open>NaN\<close> and the empty string are falsy, everything else is
  truthy.
\<close>

fun truthy :: "jsval \<Rightarrow> bool" where
  "truthy JUndefined = False"
| "truthy JNull = False"
| "truthy (JBool b) = b"
| "truthy (JNum (Finite q)) = (q \<noteq> 0)"
| "truthy (JNum NaN) = False"
| "truthy (JNum (Infinite p)) = True"
| "truthy (JStr s) = (s \<noteq> '''')"
| "truthy (JArr xs) = True"
| "truthy (JObj kvs) = True"

definition number_of_nat :: "nat \<Rightarrow> jsval" where
  "number_of_nat n = JNum (Finite (of_nat n))"

subsection \<open>Strings\<close>

text \<open>
  \<open>String.prototype.trim\<close> removes white space and line terminators from both ends.
  Among the code units below 256 these are TAB, LF, VT, FF, CR, SP and NBSP.
\<close>

definition is_ws :: "char \<Rightarrow> bool" where
  "is_ws c = (c \<in> set [CHR 0x09, CHR 0x0A, CHR 0x0B, CHR 0x0C, CHR 0x0D, CHR 0x20, CHR 0xA0])"

definition trim :: "string \<Rightarrow> string" where
  "trim s = rev (dropWhile is_ws (rev (dropWhile is_ws s)))"

text \<open>\<open>s.split(c)\<close> for a one-character separator: never empty, \<open>"".split(",")\<close> is \<open>[""]\<close>.\<close>

fun split_on :: "char \<Rightarrow> string \<Rightarrow> string list" where
  "split_on c [] = [[]]"
| "split_on c (x # xs) =
     (if x = c then [] # split_on c xs
      else (x # hd (split_on c xs)) # tl (split_on c xs))"

text \<open>\<open>xs.join(sep)\<close>.\<close>

fun join :: "string \<Rightarrow> string list \<Rightarrow> string" where
  "join sep [] = ''''"
| "join sep [x] = x"
| "join sep (x # y # ys) = x @ sep @ join sep (y # ys)"

text \<open>The decimal numeral of a natural number, as a template literal prints it.\<close>

fun string_of_nat :: "nat \<Rightarrow> string" where
  "string_of_nat n =
     (if n < 10 then [''0123456789'' ! n]
      else string_of_nat (n div 10) @ [''0123456789'' ! (n mod 10)])"

subsection \<open>Reading properties\<close>

text \<open>
  \<open>v.k\<close> and \<open>v[k]\<close>: reading a property of \<open>undefined\<close> or \<open>null\<close> throws a TypeError;
  an object gives the property's value, or \<open>undefined\<close> when it has none. The program
  reads four names only (\<open>text\<close>, \<open>date\<close>, \<open>startTime\<close>, \<open>endTime\<close>); no array, string,
  number or boolean has a property of these names, own or inherited, and
  \<open>Object.prototype\<close> has none either.
\<close>

datatype err_class =
    ValidationErrorClass
  | MethodNotAllowedErrorClass
  | ConfigurationErrorClass
  | AIServiceErrorClass

text \<open>
  \<open>AppError\<close> and its four subclasses (error-handler.util.ts). \<open>errContext\<close> is the
  optional \<open>context\<close> argument: \<open>None\<close> when the constructor was called without it.
\<close>

record app_error =
  errClass :: err_class
  message :: string
  statusCode :: nat
  isOperational :: bool
  errContext :: "(string \<times> jsval) list option"

text \<open>
  What can be thrown: an \<open>AppError\<close>, a plain \<open>Error\<close> with its message, or the
  engine's TypeError (whose message is the engine's own and is not modelled).
\<close>

datatype error = App app_error | PlainError string | TypeError

definition ValidationError :: "string \<Rightarrow> (string \<times> jsval) list option \<Rightarrow> error" where
  "ValidationError msg c =
     App \<lparr>errClass = ValidationErrorClass, message = msg, statusCode = 400,
          isOperational = True, errContext = c\<rparr>"

definition MethodNotAllowedError :: "string \<Rightarrow> error" where
  "MethodNotAllowedError m =
     App \<lparr>errClass = MethodNotAllowedErrorClass,
          message = ''HTTP method '' @ m @ '' is not allowed for this endpoint'',
          statusCode = 405, isOperational = True,
          errContext = Some [(''method'', JStr m)]\<rparr>"

definition ConfigurationError :: "string \<Rightarrow> (string \<times> jsval) list option \<Rightarrow> error" where
  "ConfigurationError msg c =
     App \<lparr>errClass = ConfigurationErrorClass, message = msg, statusCode = 500,
          isOperational = False, errContext = c\<rparr>"

definition AIServiceError :: "string \<Rightarrow> (string \<times> jsval) list option \<Rightarrow> error" where
  "AIServiceError msg c =
     App \<lparr>errClass = AIServiceErrorClass, message = msg, statusCode = 500,
          isOperational = True, errContext = c\<rparr>"

fun get_prop :: "jsval \<Rightarrow> string \<Rightarrow> error + jsval" where
  "get_prop JUndefined k = Inl TypeError"
| "get_prop JNull k = Inl TypeError"
| "get_prop (JObj kvs) k = Inr (case map_of kvs k of None \<Rightarrow> JUndefined | Some v \<Rightarrow> v)"
| "get_prop v k = Inr JUndefined"

text \<open>\<open>k in v\<close> for an object \<open>v\<close> and one of the four names.\<close>

fun has_prop :: "jsval \<Rightarrow> string \<Rightarrow> bool" where
  "has_prop (JObj kvs) k = (k \<in> set (map fst kvs))"
| "has_prop v k = False"

text \<open>
  \<open>Object.keys(v)\<close>: the own enumerable keys; the indices for an array or a string,
  none for a number or boolean, a TypeError for \<open>undefined\<close> and \<open>null\<close>.
\<close>

fun Object_keys :: "jsval \<Rightarrow> error + string list" where
  "Object_keys JUndefined = Inl TypeError"
| "Object_keys JNull = Inl TypeError"
| "Object_keys (JObj kvs) = Inr (map fst kvs)"
| "Object_keys (JArr xs) = Inr (map string_of_nat [0..<length xs])"
| "Object_keys (JStr s) = Inr (map string_of_nat [0..<length s])"
| "Object_keys v = Inr []"

section \<open>Validation middleware\<close>

record request =
  req_method :: "string option"
  req_headers :: "string \<rightharpoonup> string"
  req_body :: jsval

definition header_val :: "request \<Rightarrow> string \<Rightarrow> jsval" where
  "header_val req k = (case req_headers req k of None \<Rightarrow> JUndefined | Some s \<Rightarrow> JStr s)"

definition validateMethod :: "request \<Rightarrow> error + unit" where
  "validateMethod req =
     (if req_method req \<noteq> Some ''POST''
      then Inl (MethodNotAllowedError
                 (case req_method req of
                    None \<Rightarrow> ''UNKNOWN''
                  | Some m \<Rightarrow> if m = '''' then ''UNKNOWN'' else m))
      else Inr ())"

definition validateBody :: "request \<Rightarrow> error + unit" where
  "validateBody req =
     (if \<not> truthy (req_body req)
      then Inl (ValidationError ''Request body is required''
                 (Some [(''contentType'', header_val req ''content-type'')]))
      else if typeof (req_body req) \<noteq> ''object''
      then Inl (ValidationError ''Request body must be a JSON object''
                 (Some [(''bodyType'', JStr (typeof (req_body req)))]))
      else Inr ())"

definition validateRequiredFields :: "jsval \<Rightarrow> error + unit" where
  "validateRequiredFields body =
     (case get_prop body ''text'' of
        Inl e \<Rightarrow> Inl e
      | Inr text \<Rightarrow>
          if \<not> truthy text
          then (case Object_keys body of
                  Inl e \<Rightarrow> Inl e
                | Inr ks \<Rightarrow>
                    Inl (ValidationError ''Field 'text' is required''
                          (Some [(''providedFields'', JArr (map JStr ks)),
                                 (''missingField'', JStr ''text'')])))
          else (case text of
                  JStr s \<Rightarrow>
                    if trim s = ''''
                    then Inl (ValidationError ''Field 'text' cannot be empty''
                               (Some [(''field'', JStr ''text''),
                                      (''length'', number_of_nat (length s))]))
                    else Inr ()
                | _ \<Rightarrow>
                    Inl (ValidationError ''Field 'text' must be a string''
                          (Some [(''field'', JStr ''text''),
                                 (''providedType'', JStr (typeof text)),
                                 (''expectedType'', JStr ''string'')]))))"

definition isParseRequest :: "jsval \<Rightarrow> bool" where
  "isParseRequest obj =
     (if \<not> truthy obj \<or> typeof obj \<noteq> ''object'' then False
      else has_prop obj ''text'' \<and>
           (case get_prop obj ''text'' of
              Inr (JStr s) \<Rightarrow> length (trim s) > 0
            | _ \<Rightarrow> False))"

definition validateRequest :: "request \<Rightarrow> error + jsval" where
  "validateRequest req =
     (case validateMethod req of
        Inl e \<Rightarrow> Inl e
      | Inr _ \<Rightarrow>
     (case validateBody req of
        Inl e \<Rightarrow> Inl e
      | Inr _ \<Rightarrow>
     (case validateRequiredFields (req_body req) of
        Inl e \<Rightarrow> Inl e
      | Inr _ \<Rightarrow>
          if \<not> isParseRequest (req_body req)
          then Inl (ValidationError ''Request body does not match expected structure''
                     (Some [(''body'', req_body req)]))
          else Inr (req_body req))))"


section \<open>CORS middleware\<close>

text \<open>
  \<open>res_sent\<close> is \<open>None\<close> until the response is sent, \<open>Some None\<close> after \<open>end()\<close> (no
  body) and \<open>Some (Some v)\<close> after \<open>json(v)\<close>: the body is then the JSON text of \<open>v\<close>.
\<close>

record response =
  res_statusCode :: nat
  res_headers :: "string \<rightharpoonup> string"
  res_sent :: "jsval option option"

definition setHeader :: "response \<Rightarrow> string \<Rightarrow> string \<Rightarrow> response" where
  "setHeader res k v = res\<lparr>res_headers := (res_headers res)(k \<mapsto> v)\<rparr>"

definition status :: "response \<Rightarrow> nat \<Rightarrow> response" where
  "status res c = res\<lparr>res_statusCode := c\<rparr>"

definition end_response :: "response \<Rightarrow> response" where
  "end_response res = res\<lparr>res_sent := Some None\<rparr>"

definition json :: "response \<Rightarrow> jsval \<Rightarrow> response" where
  "json res v = res\<lparr>res_sent := Some (Some v)\<rparr>"

definition ALLOWED_METHODS :: string where
  "ALLOWED_METHODS = ''GET,OPTIONS,PATCH,DELETE,POST,PUT''"

definition ALLOWED_HEADERS :: string where
  "ALLOWED_HEADERS =
     join '', '' [''X-CSRF-Token'', ''X-Requested-With'', ''Accept'', ''Accept-Version'',
                 ''Content-Length'', ''Content-MD5'', ''Content-Type'', ''Date'',
                 ''X-Api-Version'']"

record cors_config =
  allowedOrigins :: "string list"

definition validateOrigin :: "string option \<Rightarrow> string list \<Rightarrow> string" where
  "validateOrigin origin allowed =
     (case origin of
        None \<Rightarrow> ''null''
      | Some orig \<Rightarrow>
          if orig = '''' then ''null''
          else if orig \<in> set allowed then orig
          else ''null'')"

definition setCORSHeaders :: "response \<Rightarrow> string \<Rightarrow> response" where
  "setCORSHeaders res origin =
     setHeader
       (setHeader
         (setHeader
           (setHeader res ''Access-Control-Allow-Origin'' origin)
           ''Access-Control-Allow-Credentials'' ''true'')
         ''Access-Control-Allow-Methods'' ALLOWED_METHODS)
       ''Access-Control-Allow-Headers'' ALLOWED_HEADERS"

text \<open>The middleware returns its boolean together with the response as it has left it.\<close>

definition corsMiddleware :: "request \<Rightarrow> response \<Rightarrow> cors_config \<Rightarrow> bool \<times> response" where
  "corsMiddleware req res config =
     (let requestOrigin = req_headers req ''origin'';
          validatedOrigin = validateOrigin requestOrigin (allowedOrigins config);
          res1 = setCORSHeaders res validatedOrigin
      in if req_method req = Some ''OPTIONS''
         then (True, end_response (status res1 200))
         else (False, res1))"

section \<open>Environment configuration\<close>

text \<open>\<open>process.env\<close>: each variable is a string or is not set.\<close>

record process_env =
  env_GEMINI_API_KEY :: "string option"
  env_ALLOWED_ORIGINS :: "string option"
  env_AI_MODEL_NAME :: "string option"
  env_NODE_ENV :: "string option"

record app_config =
  GEMINI_API_KEY :: string
  ALLOWED_ORIGINS :: "string list"
  AI_MODEL_NAME :: string

definition DEFAULT_ALLOWED_ORIGINS :: "string list" where
  "DEFAULT_ALLOWED_ORIGINS = [''https://dmaman86.github.io'', ''http://localhost:5173'']"

definition DEFAULT_MODEL_NAME :: string where
  "DEFAULT_MODEL_NAME = ''gemini-1.5-flash-001''"

text \<open>\<open>!s || s.trim() === ""\<close> for a variable that is a string or not set.\<close>

definition blank :: "string option \<Rightarrow> bool" where
  "blank v = (case v of None \<Rightarrow> True | Some s \<Rightarrow> s = '''' \<or> trim s = '''')"

definition getApiKey :: "process_env \<Rightarrow> error + string" where
  "getApiKey env =
     (if blank (env_GEMINI_API_KEY env)
      then Inl (PlainError
                 (''GEMINI_API_KEY environment variable is required but not set. '' @
                  ''Please configure your API key in the environment.''))
      else Inr (trim (the (env_GEMINI_API_KEY env))))"

definition getAllowedOrigins :: "process_env \<Rightarrow> string list" where
  "getAllowedOrigins env =
     (if blank (env_ALLOWED_ORIGINS env) then DEFAULT_ALLOWED_ORIGINS
      else filter (\<lambda>origin. length origin > 0)
             (map trim (split_on (CHR '','') (the (env_ALLOWED_ORIGINS env)))))"

definition getModelName :: "process_env \<Rightarrow> string" where
  "getModelName env =
     (if blank (env_AI_MODEL_NAME env) then DEFAULT_MODEL_NAME
      else trim (the (env_AI_MODEL_NAME env)))"

definition buildConfig :: "process_env \<Rightarrow> error + app_config" where
  "buildConfig env =
     (case getApiKey env of
        Inl e \<Rightarrow> Inl e
      | Inr k \<Rightarrow>
          Inr \<lparr>GEMINI_API_KEY = k, ALLOWED_ORIGINS = getAllowedOrigins env,
               AI_MODEL_NAME = getModelName env\<rparr>)"

section \<open>Error handler\<close>

text \<open>
  What the handler does besides answering: the calls it makes to the validator, the
  service and the external model, and the lines it writes to the error log (of a log
  record the marker and the error are kept; its timestamp and stack are not modelled).
\<close>

datatype event =
    Invoke_validateRequest
  | Invoke_createAIParserService
  | Invoke_parseShifts jsval
  | Invoke_generateContent string string string
  | Console_error string error

definition isOperationalError :: "error \<Rightarrow> bool" where
  "isOperationalError e = (case e of App a \<Rightarrow> isOperational a | _ \<Rightarrow> False)"

definition logError :: "error \<Rightarrow> event list" where
  "logError e =
     (case e of
        App a \<Rightarrow>
          if \<not> isOperational a then [Console_error ''[CRITICAL ERROR]'' e]
          else [Console_error ''[ERROR]'' e]
      | _ \<Rightarrow> [Console_error ''[ERROR]'' e])"

definition buildErrorResponse :: "process_env \<Rightarrow> error \<Rightarrow> jsval" where
  "buildErrorResponse env e =
     (case e of
        App a \<Rightarrow>
          JObj ([(''error'', JStr (message a)),
                 (''statusCode'', number_of_nat (statusCode a))] @
                (case errContext a of
                   Some c \<Rightarrow>
                     if env_NODE_ENV env \<noteq> Some ''production''
                     then [(''context'', JObj c)] else []
                 | None \<Rightarrow> []))
      | _ \<Rightarrow>
          JObj [(''error'', JStr ''An unexpected error occurred while processing your request''),
                (''statusCode'', number_of_nat 500)])"

definition handleError :: "process_env \<Rightarrow> error \<Rightarrow> response \<Rightarrow> response \<times> event list" where
  "handleError env e res =
     (let logged = logError e;
          code = (case e of App a \<Rightarrow> statusCode a | _ \<Rightarrow> 500);
          response = buildErrorResponse env e
      in (json (status res code) response, logged))"

section \<open>AI parser service\<close>

text \<open>
  What the program takes from outside itself: \<open>JSON.parse\<close> (the parsed value, or the
  message of the SyntaxError it throws), the external model (given the API key, the
  model name and the prompt it replies with a text, or the SDK throws an error with a
  message) and the calendar year (\<open>new Date().getFullYear()\<close>).
\<close>

datatype model_reply = Throws string | Text string

record platform =
  JSON_parse :: "string \<Rightarrow> string + jsval"
  generateContent :: "string \<Rightarrow> string \<Rightarrow> string \<Rightarrow> model_reply"
  currentYear :: nat

record ai_parser_config =
  cfg_apiKey :: string
  cfg_modelName :: string

record ai_parser_service =
  genAI :: string
  modelName :: string

text \<open>The constructor of \<open>AIParserService\<close>; \<open>genAI\<close> holds the client's API key.\<close>

definition new_AIParserService :: "ai_parser_config \<Rightarrow> error + ai_parser_service" where
  "new_AIParserService config =
     (if cfg_apiKey config = '''' \<or> trim (cfg_apiKey config) = ''''
      then Inl (ConfigurationError ''Invalid API key provided to AIParserService''
                 (Some [(''provided'', JBool (cfg_apiKey config \<noteq> ''''))]))
      else if cfg_modelName config = '''' \<or> trim (cfg_modelName config) = ''''
      then Inl (ConfigurationError ''Invalid model name provided to AIParserService''
                 (Some [(''provided'', JBool (cfg_modelName config \<noteq> ''''))]))
      else Inr \<lparr>genAI = cfg_apiKey config, modelName = cfg_modelName config\<rparr>)"

definition createAIParserService :: "string \<Rightarrow> string \<Rightarrow> error + ai_parser_service" where
  "createAIParserService apiKey mName =
     new_AIParserService \<lparr>cfg_apiKey = apiKey, cfg_modelName = mName\<rparr>"

definition buildPrompt :: "nat \<Rightarrow> string \<Rightarrow> string" where
  "buildPrompt year text =
     trim (join [CHR 0x0A]
       ['''',
        ''Analyze the provided text and extract work shifts.'',
        '''',
        ''Current Context: Year '' @ string_of_nat year @
          '' (use this year if the year is missing in the date).'',
        '''',
        ''Instructions:'',
        ''- Extract all shift information including dates, start times, and end times'',
        ''- Normalize dates to YYYY-MM-DD format'',
        ''- Normalize times to HH:mm format (24-hour)'',
        ''- If year is missing, use '' @ string_of_nat year,
        ''- Return data strictly as a JSON array matching the schema'',
        '''',
        ''Input text: '' @ [CHR 0x22] @ text @ [CHR 0x22],
        ''    ''])"

text \<open>The two errors \<open>validateShifts\<close> throws, for the shift at index \<open>i\<close>.\<close>

definition notObjectError :: "nat \<Rightarrow> jsval \<Rightarrow> error" where
  "notObjectError i shift =
     AIServiceError (''Invalid shift at index '' @ string_of_nat i @ '': not an object'')
       (Some [(''shiftIndex'', number_of_nat i),
              (''shiftType'', JStr (typeof shift))])"

definition invalidFieldError :: "nat \<Rightarrow> string \<Rightarrow> jsval \<Rightarrow> error" where
  "invalidFieldError i field v =
     AIServiceError
       (''Invalid shift at index '' @ string_of_nat i @
        '': missing or invalid field '' @ [CHR 0x27] @ field @ [CHR 0x27])
       (Some [(''shiftIndex'', number_of_nat i),
              (''field'', JStr field),
              (''provided'', v),
              (''type'', JStr (typeof v))])"

text \<open>The inner loop of \<open>validateShifts\<close>, over the required fields of the shift at index \<open>i\<close>.\<close>

fun validateFields :: "nat \<Rightarrow> jsval \<Rightarrow> string list \<Rightarrow> error + unit" where
  "validateFields i shift [] = Inr ()"
| "validateFields i shift (field # rest) =
     (case get_prop shift field of
        Inl e \<Rightarrow> Inl e
      | Inr v \<Rightarrow>
          if \<not> truthy v \<or> typeof v \<noteq> ''string''
          then Inl (invalidFieldError i field v)
          else validateFields i shift rest)"

definition requiredFields :: "string list" where
  "requiredFields = [''date'', ''startTime'', ''endTime'']"

text \<open>The outer loop, from index \<open>i\<close> on.\<close>

fun validateShifts_from :: "nat \<Rightarrow> jsval list \<Rightarrow> error + unit" where
  "validateShifts_from i [] = Inr ()"
| "validateShifts_from i (shift # shifts) =
     (if \<not> truthy shift \<or> typeof shift \<noteq> ''object''
      then Inl (notObjectError i shift)
      else (case validateFields i shift requiredFields of
              Inl e \<Rightarrow> Inl e
            | Inr _ \<Rightarrow> validateShifts_from (Suc i) shifts))"

definition validateShifts :: "jsval list \<Rightarrow> error + unit" where
  "validateShifts shifts = validateShifts_from 0 shifts"

text \<open>
  What \<open>parseShifts\<close> does once its input has passed the guard. The catch clause
  rethrows an \<open>AIServiceError\<close> unchanged and wraps anything else; within the try
  block only the SDK call throws anything else.
\<close>

definition generateShifts ::
  "platform \<Rightarrow> ai_parser_service \<Rightarrow> string \<Rightarrow> (error + jsval) \<times> event list" where
  "generateShifts pf svc text =
     (let prompt = buildPrompt (currentYear pf) text;
          called = [Invoke_generateContent (genAI svc) (modelName svc) prompt]
      in case generateContent pf (genAI svc) (modelName svc) prompt of
           Throws msg \<Rightarrow>
             (Inl (AIServiceError ''Failed to generate shifts from AI service''
                    (Some [(''modelName'', JStr (modelName svc)),
                           (''originalError'', JStr msg)])), called)
         | Text responseText \<Rightarrow>
             if responseText = '''' \<or> trim responseText = ''''
             then (Inl (AIServiceError ''AI model returned empty response''
                         (Some [(''modelName'', JStr (modelName svc))])), called)
             else (case JSON_parse pf responseText of
                     Inl parseError \<Rightarrow>
                       (Inl (AIServiceError ''Failed to parse AI response as JSON''
                              (Some [(''modelName'', JStr (modelName svc)),
                                     (''responsePreview'', JStr (take 200 responseText)),
                                     (''parseError'', JStr parseError)])), called)
                   | Inr parsedShifts \<Rightarrow>
                       (case parsedShifts of
                          JArr shifts \<Rightarrow>
                            (case validateShifts shifts of
                               Inl e \<Rightarrow> (Inl e, called)
                             | Inr _ \<Rightarrow> (Inr parsedShifts, called))
                        | _ \<Rightarrow>
                            (Inl (AIServiceError ''AI response is not an array''
                                   (Some [(''modelName'', JStr (modelName svc)),
                                          (''responseType'', JStr (typeof parsedShifts))])),
                             called))))"

text \<open>
  \<open>parseShifts\<close>: the guard \<open>!text || text.trim() === ""\<close> comes before the try block.
  The parameter is declared a string; at run time it is whatever the caller passes, and
  a truthy value that is no string has no \<open>trim\<close> method.
\<close>

definition parseShifts ::
  "platform \<Rightarrow> ai_parser_service \<Rightarrow> jsval \<Rightarrow> (error + jsval) \<times> event list" where
  "parseShifts pf svc text =
     (if \<not> truthy text
      then (Inl (AIServiceError ''Cannot parse empty text''
                  (Some [(''inputLength'', number_of_nat 0)])), [])
      else (case text of
              JStr s \<Rightarrow>
                if trim s = ''''
                then (Inl (AIServiceError ''Cannot parse empty text''
                            (Some [(''inputLength'', number_of_nat (length s))])), [])
                else generateShifts pf svc s
            | _ \<Rightarrow> (Inl TypeError, [])))"

section \<open>The handler\<close>

text \<open>
  \<open>config\<close> is built once, when the module is loaded; the handler exists only if that
  succeeded. \<open>env\<close> is \<open>process.env\<close> as the error handler reads it.
\<close>

definition handler ::
  "platform \<Rightarrow> process_env \<Rightarrow> app_config \<Rightarrow> request \<Rightarrow> response \<Rightarrow> response \<times> event list" where
  "handler pf env config req res =
     (case corsMiddleware req res \<lparr>allowedOrigins = ALLOWED_ORIGINS config\<rparr> of
        (True, res1) \<Rightarrow> (res1, [])
      | (False, res1) \<Rightarrow>
          (case validateRequest req of
             Inl e \<Rightarrow>
               (case handleError env e res1 of (r, logged) \<Rightarrow> (r, Invoke_validateRequest # logged))
           | Inr body \<Rightarrow>
          (case get_prop body ''text'' of
             Inl e \<Rightarrow>
               (case handleError env e res1 of (r, logged) \<Rightarrow> (r, Invoke_validateRequest # logged))
           | Inr text \<Rightarrow>
          (case createAIParserService (GEMINI_API_KEY config) (AI_MODEL_NAME config) of
             Inl e \<Rightarrow>
               (case handleError env e res1 of
                  (r, logged) \<Rightarrow>
                    (r, [Invoke_validateRequest, Invoke_createAIParserService] @ logged))
           | Inr aiParser \<Rightarrow>
          (case parseShifts pf aiParser text of
             (Inl e, calls) \<Rightarrow>
               (case handleError env e res1 of
                  (r, logged) \<Rightarrow>
                    (r, [Invoke_validateRequest, Invoke_createAIParserService,
                         Invoke_parseShifts text] @ calls @ logged))
           | (Inr shifts, calls) \<Rightarrow>
               (json (status res1 200) shifts,
                [Invoke_validateRequest, Invoke_createAIParserService,
                 Invoke_parseShifts text] @ calls))))))"

text \<open>Loading the module and then serving one request.\<close>

definition serve ::
  "platform \<Rightarrow> process_env \<Rightarrow> request \<Rightarrow> response \<Rightarrow> error + response \<times> event list" where
  "serve pf env req res =
     (case buildConfig env of
        Inl e \<Rightarrow> Inl e
      | Inr config \<Rightarrow> Inr (handler pf env config req res))"

section \<open>Notions used to state the properties\<close>

text \<open>\<open>e instanceof C\<close> for one of the four subclasses.\<close>

definition instance_of :: "err_class \<Rightarrow> error \<Rightarrow> bool" where
  "instance_of c e = (case e of App a \<Rightarrow> errClass a = c | _ \<Rightarrow> False)"

text \<open>The status the error handler answers with: the error's own, or 500.\<close>

definition error_status :: "error \<Rightarrow> nat" where
  "error_status e = (case e of App a \<Rightarrow> statusCode a | _ \<Rightarrow> 500)"


text \<open>
  A value is an object when it is truthy and \<open>typeof\<close> calls it one; a field of a shift
  is well formed when it is a non-empty string; a shift is well formed when it is an
  object whose three required fields are.
\<close>

definition is_object :: "jsval \<Rightarrow> bool" where
  "is_object v = (truthy v \<and> typeof v = ''object'')"

definition field_ok :: "jsval \<Rightarrow> string \<Rightarrow> bool" where
  "field_ok shift field =
     (case get_prop shift field of Inr (JStr s) \<Rightarrow> s \<noteq> '''' | _ \<Rightarrow> False)"

definition shift_ok :: "jsval \<Rightarrow> bool" where
  "shift_ok shift = (is_object shift \<and> list_all (field_ok shift) requiredFields)"

text \<open>
  The error that names the first violation in the shift at index \<open>i\<close>: the shift is no
  object, or else the first of its required fields that is not well formed.
\<close>

definition first_violation :: "nat \<Rightarrow> jsval \<Rightarrow> error \<Rightarrow> bool" where
  "first_violation i shift e =
     (if \<not> is_object shift then e = notObjectError i shift
      else (case find (\<lambda>f. \<not> field_ok shift f) requiredFields of
              None \<Rightarrow> False
            | Some f \<Rightarrow>
                (case get_prop shift f of
                   Inl _ \<Rightarrow> False
                 | Inr v \<Rightarrow> e = invalidFieldError i f v)))"

subsection \<open>Example inputs\<close>

definition example_reply :: string where
  \<open>example_reply = ''[{"date":"2026-01-12","startTime":"09:00","endTime":"17:00"}]''\<close>

definition example_shift :: jsval where
  "example_shift =
     JObj [(''date'', JStr ''2026-01-12''), (''startTime'', JStr ''09:00''),
           (''endTime'', JStr ''17:00'')]"

text \<open>A stand-in for \<open>JSON.parse\<close> that knows the example reply and the empty array.\<close>

definition example_JSON_parse :: "string \<Rightarrow> string + jsval" where
  "example_JSON_parse s =
     (if s = example_reply then Inr (JArr [example_shift])
      else if s = ''[]'' then Inr (JArr [])
      else Inl ''Unexpected token'')"

definition example_platform :: platform where
  "example_platform =
     \<lparr>JSON_parse = example_JSON_parse,
      generateContent = (\<lambda>apiKey mName prompt. Text example_reply),
      currentYear = 2026\<rparr>"

definition example_env :: process_env where
  "example_env =
     \<lparr>env_GEMINI_API_KEY = Some ''test-key'', env_ALLOWED_ORIGINS = None,
      env_AI_MODEL_NAME = None, env_NODE_ENV = Some ''production''\<rparr>"

definition example_config :: app_config where
  "example_config =
     \<lparr>GEMINI_API_KEY = ''test-key'', ALLOWED_ORIGINS = DEFAULT_ALLOWED_ORIGINS,
      AI_MODEL_NAME = DEFAULT_MODEL_NAME\<rparr>"

definition example_service :: ai_parser_service where
  "example_service = \<lparr>genAI = ''test-key'', modelName = DEFAULT_MODEL_NAME\<rparr>"

definition fresh_response :: response where
  "fresh_response = \<lparr>res_statusCode = 200, res_headers = Map.empty, res_sent = None\<rparr>"

definition post_request :: "jsval \<Rightarrow> request" where
  "post_request body =
     \<lparr>req_method = Some ''POST'',
      req_headers = [''origin'' \<mapsto> ''http://localhost:5173'',
                     ''content-type'' \<mapsto> ''application/json''],
      req_body = body\<rparr>"

definition options_request :: request where
  "options_request =
     \<lparr>req_method = Some ''OPTIONS'',
      req_headers = [''origin'' \<mapsto> ''https://evil.example''],
      req_body = JUndefined\<rparr>"

definition keyless_env :: process_env where
  "keyless_env =
     \<lparr>env_GEMINI_API_KEY = None, env_ALLOWED_ORIGINS = None,
      env_AI_MODEL_NAME = None, env_NODE_ENV = None\<rparr>"

definition example_text :: string where
  "example_text = ''I work Monday 9am to 5pm''"

definition blank_key_env :: process_env where
  "blank_key_env =
     \<lparr>env_GEMINI_API_KEY = Some ''  '', env_ALLOWED_ORIGINS = None,
      env_AI_MODEL_NAME = None, env_NODE_ENV = None\<rparr>"

definition empty_date_shift :: jsval where
  "empty_date_shift =
     JObj [(''date'', JStr ''''), (''startTime'', JStr ''09:00''),
           (''endTime'', JStr ''17:00'')]"

definition no_endTime_shift :: jsval where
  "no_endTime_shift =
     JObj [(''date'', JStr ''2026-01-13''), (''startTime'', JStr ''10:00'')]"

text \<open>A second platform and environment: another year, another reply, no production mode.\<close>

definition other_platform :: platform where
  "other_platform =
     \<lparr>JSON_parse = example_JSON_parse,
      generateContent = (\<lambda>apiKey mName prompt.
         if prompt = buildPrompt 2027 example_text then Text example_reply else Text ''[]''),
      currentYear = 2027\<rparr>"

definition other_config :: app_config where
  "other_config =
     \<lparr>GEMINI_API_KEY = ''other-key'', ALLOWED_ORIGINS = [''https://example.com''],
      AI_MODEL_NAME = ''gemini-1.5-flash''\<rparr>"

definition example_request :: request where
  "example_request = post_request (JObj [(''text'', JStr example_text)])"

definition other_request :: request where
  "other_request =
     \<lparr>req_method = Some ''POST'', req_headers = Map.empty,
      req_body = JObj [(''locale'', JStr ''en''), (''text'', JStr example_text)]\<rparr>"

text \<open>A request from a document with an opaque origin: browsers send \<open>Origin: null\<close>.\<close>

definition null_origin_request :: request where
  "null_origin_request =
     \<lparr>req_method = Some ''POST'', req_headers = [''origin'' \<mapsto> ''null''],
      req_body = JObj [(''text'', JStr example_text)]\<rparr>"

section \<open>Basic facts\<close>

lemma trim_Nil: "trim '''' = ''''"
  by (simp add: trim_def)

lemma get_prop_error: "get_prop x k = Inl e \<Longrightarrow> e = TypeError"
  by (cases x) simp_all

lemma Object_keys_error: "Object_keys x = Inl e \<Longrightarrow> e = TypeError"
  by (cases x) simp_all

lemma getAllowedOrigins_nonempty: "'''' \<notin> set (getAllowedOrigins env)"
  by (simp add: getAllowedOrigins_def DEFAULT_ALLOWED_ORIGINS_def)

lemma validateOrigin_empty_origin: "validateOrigin (Some '''') allowed = ''null''"
  by (simp add: validateOrigin_def)

lemma corsMiddleware_origin_header:
  "res_headers (snd (corsMiddleware req res config)) ''Access-Control-Allow-Origin'' =
     Some (validateOrigin (req_headers req ''origin'') (allowedOrigins config))"
  by (simp add: corsMiddleware_def Let_def setCORSHeaders_def setHeader_def status_def
      end_response_def)

section \<open>The allow-origin header\<close>

text \<open>
  C1, as the code has it. The allow-list the CORS middleware is configured with is the
  one \<open>getAllowedOrigins\<close> builds from the environment. For every environment and every
  request, the \<open>Access-Control-Allow-Origin\<close> header the middleware sets is the request's
  origin, unchanged, when that origin is a member of the list (membership is equality of
  strings), and the string \<open>null\<close> when the request has no origin header or its origin
  is no member. So the header equals the request's origin exactly when the origin is a
  member of the list or is itself the string \<open>null\<close>.
  (The guard \<open>!origin\<close> sends an empty origin to \<open>null\<close> before the list is consulted;
  the configured list never holds the empty string, so the guard agrees with membership.)
\<close>

theorem cors_allow_origin:
  "res_headers (snd (corsMiddleware req res \<lparr>allowedOrigins = getAllowedOrigins env\<rparr>))
       ''Access-Control-Allow-Origin'' =
     Some (case req_headers req ''origin'' of
             None \<Rightarrow> ''null''
           | Some orig \<Rightarrow> if orig \<in> set (getAllowedOrigins env) then orig else ''null'') \<and>
   (\<forall>orig. req_headers req ''origin'' = Some orig \<longrightarrow>
      (res_headers (snd (corsMiddleware req res \<lparr>allowedOrigins = getAllowedOrigins env\<rparr>))
           ''Access-Control-Allow-Origin'' = Some orig
       \<longleftrightarrow> orig \<in> set (getAllowedOrigins env) \<or> orig = ''null''))"
proof -
  have header: "res_headers (snd (corsMiddleware req res \<lparr>allowedOrigins = getAllowedOrigins env\<rparr>))
       ''Access-Control-Allow-Origin'' =
     Some (case req_headers req ''origin'' of
             None \<Rightarrow> ''null''
           | Some orig \<Rightarrow> if orig \<in> set (getAllowedOrigins env) then orig else ''null'')"
  proof (cases "req_headers req ''origin''")
    case None
    then show ?thesis
      by (simp add: corsMiddleware_origin_header validateOrigin_def)
  next
    case (Some orig)
    have "orig = '''' \<Longrightarrow> orig \<notin> set (getAllowedOrigins env)"
      using getAllowedOrigins_nonempty by simp
    with Some show ?thesis
      by (auto simp add: corsMiddleware_origin_header validateOrigin_def)
  qed
  then show ?thesis by auto
qed

theorem cors_allow_origin_witness:
  "req_headers (post_request JNull) ''origin'' = Some ''http://localhost:5173'' \<and>
   ''http://localhost:5173'' \<in> set (getAllowedOrigins example_env) \<and>
   res_headers (snd (corsMiddleware (post_request JNull) fresh_response
                       \<lparr>allowedOrigins = getAllowedOrigins example_env\<rparr>))
       ''Access-Control-Allow-Origin'' = Some ''http://localhost:5173'' \<and>
   req_headers options_request ''origin'' = Some ''https://evil.example'' \<and>
   res_headers (snd (corsMiddleware options_request fresh_response
                       \<lparr>allowedOrigins = getAllowedOrigins example_env\<rparr>))
       ''Access-Control-Allow-Origin'' = Some ''null''"
proof -
  have o1: "req_headers (post_request JNull) ''origin'' = Some ''http://localhost:5173''"
    by (simp add: post_request_def)
  have o2: "req_headers options_request ''origin'' = Some ''https://evil.example''"
    by (simp add: options_request_def)
  have allowed: "getAllowedOrigins example_env =
      [''https://dmaman86.github.io'', ''http://localhost:5173'']"
    by (simp add: example_env_def getAllowedOrigins_def blank_def DEFAULT_ALLOWED_ORIGINS_def)
  from cors_allow_origin [of "post_request JNull" fresh_response example_env]
    cors_allow_origin [of options_request fresh_response example_env] o1 o2 allowed
  show ?thesis by simp
qed

text \<open>
  C1 as stated fails: a request with \<open>Origin: null\<close>, which is no member of the default
  allow-list, gets the header \<open>null\<close>, which equals its origin.
\<close>

theorem cors_allow_origin_counterexample:
  "req_headers null_origin_request ''origin'' = Some ''null'' \<and>
   ''null'' \<notin> set (getAllowedOrigins example_env) \<and>
   res_headers (snd (corsMiddleware null_origin_request fresh_response
                       \<lparr>allowedOrigins = getAllowedOrigins example_env\<rparr>))
       ''Access-Control-Allow-Origin'' = Some ''null''"
  by (simp add: null_origin_request_def example_env_def getAllowedOrigins_def blank_def
      DEFAULT_ALLOWED_ORIGINS_def corsMiddleware_origin_header validateOrigin_def)

section \<open>The guard of parseShifts\<close>

text \<open>
  C6. When the input of \<open>parseShifts\<close> is absent (\<open>undefined\<close> or \<open>null\<close>) or is a string
  that is empty after trimming, \<open>parseShifts\<close> throws the \<open>AIServiceError\<close>
  "Cannot parse empty text", whose context holds the length of the input (0 for an
  absent one); the error is no \<open>ValidationError\<close>, and the external model is not
  called: no call is recorded.
\<close>

theorem parseShifts_empty_input:
  assumes "text = JUndefined \<or> text = JNull \<or> (\<exists>s. text = JStr s \<and> trim s = '''')"
  shows "\<exists>e. parseShifts pf svc text = (Inl e, []) \<and>
             e = AIServiceError ''Cannot parse empty text''
                   (Some [(''inputLength'',
                           number_of_nat (case text of JStr s \<Rightarrow> length s | _ \<Rightarrow> 0))]) \<and>
             instance_of AIServiceErrorClass e \<and> \<not> instance_of ValidationErrorClass e"
  using assms
  by (auto simp add: parseShifts_def trim_Nil AIServiceError_def instance_of_def)

theorem parseShifts_empty_input_witness:
  "(\<exists>s. JStr [CHR 0x20, CHR 0x09] = JStr s \<and> trim s = '''') \<and>
   parseShifts example_platform example_service (JStr [CHR 0x20, CHR 0x09]) =
     (Inl (AIServiceError ''Cannot parse empty text'' (Some [(''inputLength'', number_of_nat 2)])),
      [])"
proof -
  have h: "\<exists>s. JStr [CHR 0x20, CHR 0x09] = JStr s \<and> trim s = ''''"
    by (simp add: trim_def is_ws_def)
  then have "JStr [CHR 0x20, CHR 0x09] = JUndefined \<or> JStr [CHR 0x20, CHR 0x09] = JNull \<or>
      (\<exists>s. JStr [CHR 0x20, CHR 0x09] = JStr s \<and> trim s = '''')"
    by blast
  from parseShifts_empty_input [OF this, of example_platform example_service] h
  show ?thesis by (simp add: eval_nat_numeral)
qed

section \<open>Preflight requests\<close>

text \<open>
  C7. For every request whose method is \<open>OPTIONS\<close>, the CORS middleware returns true and
  the handler stops there: the response has status 200 and was ended without a body,
  and nothing else was invoked (the record of calls is empty: no validator, no service,
  no model, no error log).
\<close>

theorem handler_options:
  assumes "req_method req = Some ''OPTIONS''"
  shows "fst (corsMiddleware req res \<lparr>allowedOrigins = ALLOWED_ORIGINS config\<rparr>) = True \<and>
         res_statusCode (fst (handler pf env config req res)) = 200 \<and>
         res_sent (fst (handler pf env config req res)) = Some None \<and>
         snd (handler pf env config req res) = []"
  using assms
  by (simp add: handler_def corsMiddleware_def Let_def status_def end_response_def)

theorem handler_options_witness:
  "req_method options_request = Some ''OPTIONS'' \<and>
   res_statusCode (fst (handler example_platform example_env example_config
                          options_request fresh_response)) = 200 \<and>
   res_sent (fst (handler example_platform example_env example_config
                    options_request fresh_response)) = Some None \<and>
   snd (handler example_platform example_env example_config options_request fresh_response) = []"
proof -
  have h: "req_method options_request = Some ''OPTIONS''"
    by (simp add: options_request_def)
  from handler_options [OF h, of fresh_response example_config example_platform example_env] h
  show ?thesis by simp
qed

section \<open>The request validator\<close>

lemma is_object_cases: "is_object v \<longleftrightarrow> (\<exists>kvs. v = JObj kvs) \<or> (\<exists>xs. v = JArr xs)"
  by (cases v) (simp_all add: is_object_def)

lemma validateRequest_object:
  assumes "req_method req = Some ''POST''" and "is_object (req_body req)"
  shows "validateRequest req =
           (case validateRequiredFields (req_body req) of
              Inl e \<Rightarrow> Inl e
            | Inr u \<Rightarrow>
                if \<not> isParseRequest (req_body req)
                then Inl (ValidationError ''Request body does not match expected structure''
                           (Some [(''body'', req_body req)]))
                else Inr (req_body req))"
  using assms
  by (simp add: validateRequest_def validateMethod_def validateBody_def is_object_def)

lemma required_fields_pass:
  "validateRequiredFields body = Inr u \<longleftrightarrow>
     (\<exists>s. get_prop body ''text'' = Inr (JStr s) \<and> trim s \<noteq> '''')"
  by (cases "get_prop body ''text''")
    (auto simp add: validateRequiredFields_def trim_Nil ValidationError_def
      split: sum.splits jsval.splits)


text \<open>
  C2, as the code has it. For a POST request whose body is an object, the validator
  throws "Field 'text' is required", with the body's keys in its context, exactly when
  the value read from \<open>body.text\<close> is falsy: the key is absent, or its value is
  \<open>undefined\<close>, \<open>null\<close>, \<open>false\<close>, \<open>0\<close>, \<open>NaN\<close> or the empty string. When the value is a
  string that is not empty but is empty after trimming, it throws "Field 'text' cannot
  be empty" with the length before trimming.
\<close>

theorem validateRequest_text_required:
  assumes "req_method req = Some ''POST''" and "is_object (req_body req)"
  shows "\<exists>tv ks. get_prop (req_body req) ''text'' = Inr tv \<and>
           Object_keys (req_body req) = Inr ks \<and>
           (\<not> truthy tv \<longrightarrow>
              validateRequest req =
                Inl (ValidationError ''Field 'text' is required''
                      (Some [(''providedFields'', JArr (map JStr ks)),
                             (''missingField'', JStr ''text'')]))) \<and>
           (truthy tv \<longrightarrow>
              (\<forall>c. validateRequest req \<noteq> Inl (ValidationError ''Field 'text' is required'' c))) \<and>
           (\<forall>s. tv = JStr s \<and> s \<noteq> '''' \<and> trim s = '''' \<longrightarrow>
              validateRequest req =
                Inl (ValidationError ''Field 'text' cannot be empty''
                      (Some [(''field'', JStr ''text''),
                             (''length'', number_of_nat (length s))])))"
proof -
  from assms(2) obtain tv ks where
    tv: "get_prop (req_body req) ''text'' = Inr tv" and
    ks: "Object_keys (req_body req) = Inr ks"
    by (auto simp add: is_object_cases)
  have falsy: "validateRequest req =
      Inl (ValidationError ''Field 'text' is required''
            (Some [(''providedFields'', JArr (map JStr ks)),
                   (''missingField'', JStr ''text'')]))" if "\<not> truthy tv"
    using that tv ks by (simp add: validateRequest_object [OF assms] validateRequiredFields_def)
  have truthy: "validateRequest req \<noteq> Inl (ValidationError ''Field 'text' is required'' c)"
    if "truthy tv" for c
    using that tv
    by (auto simp add: validateRequest_object [OF assms] validateRequiredFields_def
        ValidationError_def split: jsval.splits)
  have blank: "validateRequest req =
      Inl (ValidationError ''Field 'text' cannot be empty''
            (Some [(''field'', JStr ''text''), (''length'', number_of_nat (length s))]))"
    if "tv = JStr s" "s \<noteq> ''''" "trim s = ''''" for s
    using that tv by (simp add: validateRequest_object [OF assms] validateRequiredFields_def)
  from tv ks falsy truthy blank show ?thesis by blast
qed

theorem validateRequest_text_required_witness:
  "req_method (post_request (JObj [(''text'', JStr '' '')])) = Some ''POST'' \<and>
   is_object (req_body (post_request (JObj [(''text'', JStr '' '')]))) \<and>
   validateRequest (post_request (JObj [(''text'', JStr '' '')])) =
     Inl (ValidationError ''Field 'text' cannot be empty''
           (Some [(''field'', JStr ''text''), (''length'', number_of_nat 1)]))"
proof -
  have h1: "req_method (post_request (JObj [(''text'', JStr '' '')])) = Some ''POST''"
    by (simp add: post_request_def)
  have h2: "is_object (req_body (post_request (JObj [(''text'', JStr '' '')])))"
    by (simp add: post_request_def is_object_def)
  have "trim '' '' = ''''"
    by (simp add: trim_def is_ws_def)
  with validateRequest_text_required [OF h1 h2] h1 h2 show ?thesis
    by (auto simp add: post_request_def)
qed

text \<open>
  C2 as stated fails: a body \<open>{"text": ""}\<close> has the key \<open>text\<close>, with a string value
  that is empty after trimming, and the validator throws "Field 'text' is required".
\<close>

theorem validateRequest_text_required_counterexample:
  "has_prop (JObj [(''text'', JStr '''')]) ''text'' \<and>
   trim '''' = '''' \<and>
   validateRequest (post_request (JObj [(''text'', JStr '''')])) =
     Inl (ValidationError ''Field 'text' is required''
           (Some [(''providedFields'', JArr [JStr ''text'']),
                  (''missingField'', JStr ''text'')]))"
  by (simp add: trim_Nil post_request_def validateRequest_def validateMethod_def
      validateBody_def validateRequiredFields_def)

section \<open>The lightweight validator\<close>




section \<open>Loading the configuration\<close>

text \<open>
  C5, as the code has it. When \<open>GEMINI_API_KEY\<close> is not set or is blank, building the
  configuration fails with a plain \<open>Error\<close> (as \<open>getApiKey\<close> documents), whose message
  says that the variable is required; the error is no instance of any class of the
  taxonomy and carries no status code, operational flag or context. The module does
  not load, so no request is served.
\<close>

theorem buildConfig_blank_key:
  assumes "env_GEMINI_API_KEY env = None \<or>
           (\<exists>s. env_GEMINI_API_KEY env = Some s \<and> trim s = '''')"
  shows "\<exists>m. m = ''GEMINI_API_KEY environment variable is required but not set. '' @
                 ''Please configure your API key in the environment.'' \<and>
             buildConfig env = Inl (PlainError m) \<and>
             (\<forall>c. \<not> instance_of c (PlainError m)) \<and>
             serve pf env req res = Inl (PlainError m)"
  using assms
  by (auto simp add: serve_def buildConfig_def getApiKey_def blank_def instance_of_def)

theorem buildConfig_blank_key_witness:
  "(\<exists>s. env_GEMINI_API_KEY blank_key_env = Some s \<and> trim s = '''') \<and>
   buildConfig blank_key_env =
     Inl (PlainError
           (''GEMINI_API_KEY environment variable is required but not set. '' @
            ''Please configure your API key in the environment.''))"
proof -
  have h: "\<exists>s. env_GEMINI_API_KEY blank_key_env = Some s \<and> trim s = ''''"
    by (simp add: blank_key_env_def trim_def is_ws_def)
  then have "env_GEMINI_API_KEY blank_key_env = None \<or>
      (\<exists>s. env_GEMINI_API_KEY blank_key_env = Some s \<and> trim s = '''')"
    by blast
  from buildConfig_blank_key [OF this] h show ?thesis by blast
qed

text \<open>
  C5 as stated fails: with the key not set, what is thrown is a plain \<open>Error\<close>, not a
  \<open>ConfigurationError\<close>.
\<close>

theorem buildConfig_blank_key_counterexample:
  "buildConfig keyless_env =
     Inl (PlainError
           (''GEMINI_API_KEY environment variable is required but not set. '' @
            ''Please configure your API key in the environment.'')) \<and>
   \<not> instance_of ConfigurationErrorClass
       (PlainError
         (''GEMINI_API_KEY environment variable is required but not set. '' @
          ''Please configure your API key in the environment.''))"
  by (simp add: buildConfig_def getApiKey_def blank_def keyless_env_def instance_of_def)

section \<open>The error responder\<close>

lemma handleError_response:
  "fst (handleError env e res) =
     res\<lparr>res_statusCode := error_status e, res_sent := Some (Some (buildErrorResponse env e))\<rparr>"
  by (simp add: handleError_def Let_def json_def status_def error_status_def)

lemma buildErrorResponse_unrecognized:
  "get_prop (buildErrorResponse env (PlainError m)) ''error'' =
     Inr (JStr ''An unexpected error occurred while processing your request'') \<and>
   get_prop (buildErrorResponse env TypeError) ''error'' =
     Inr (JStr ''An unexpected error occurred while processing your request'')"
  by (simp add: buildErrorResponse_def)

lemma buildErrorResponse_AppError:
  "get_prop (buildErrorResponse env (App a)) ''error'' = Inr (JStr (message a))"
  by (simp add: buildErrorResponse_def)

text \<open>
  C4, as the code has it. The responder sends the body \<open>buildErrorResponse\<close> builds,
  whatever the deployment mode. For an error outside the taxonomy the body is the
  fixed generic message with status code 500, whatever the error's own message. For
  every error of the taxonomy, operational or not (a \<open>ConfigurationError\<close> included),
  the body's \<open>error\<close> field is the error's own message and its \<open>statusCode\<close> the error's
  own; the context is added only outside production mode, when the error has one.
\<close>

theorem handleError_error_field:
  "res_sent (fst (handleError env e res)) = Some (Some (buildErrorResponse env e)) \<and>
   ((\<forall>a. e \<noteq> App a) \<longrightarrow>
      buildErrorResponse env e =
        JObj [(''error'', JStr ''An unexpected error occurred while processing your request''),
              (''statusCode'', number_of_nat 500)]) \<and>
   (\<forall>a. e = App a \<longrightarrow>
      get_prop (buildErrorResponse env e) ''error'' = Inr (JStr (message a)) \<and>
      get_prop (buildErrorResponse env e) ''statusCode'' = Inr (number_of_nat (statusCode a)) \<and>
      get_prop (buildErrorResponse env e) ''context'' =
        Inr (case errContext a of
               None \<Rightarrow> JUndefined
             | Some c \<Rightarrow> if env_NODE_ENV env \<noteq> Some ''production'' then JObj c
                         else JUndefined))"
proof (intro conjI allI impI)
  show "res_sent (fst (handleError env e res)) = Some (Some (buildErrorResponse env e))"
    by (simp add: handleError_response)
  show "buildErrorResponse env e =
        JObj [(''error'', JStr ''An unexpected error occurred while processing your request''),
              (''statusCode'', number_of_nat 500)]" if "\<forall>a. e \<noteq> App a"
    using that by (cases e) (simp_all add: buildErrorResponse_def)
  fix a
  assume e: "e = App a"
  then show "get_prop (buildErrorResponse env e) ''error'' = Inr (JStr (message a))"
    by (simp add: buildErrorResponse_AppError)
  from e show "get_prop (buildErrorResponse env e) ''statusCode'' =
      Inr (number_of_nat (statusCode a))"
    by (simp add: buildErrorResponse_def)
  from e show "get_prop (buildErrorResponse env e) ''context'' =
        Inr (case errContext a of
               None \<Rightarrow> JUndefined
             | Some c \<Rightarrow> if env_NODE_ENV env \<noteq> Some ''production'' then JObj c
                         else JUndefined)"
    by (simp add: buildErrorResponse_def split: option.splits)
qed

theorem handleError_error_field_witness:
  "res_sent (fst (handleError example_env (PlainError ''socket hang up'') fresh_response)) =
     Some (Some (JObj [(''error'',
                        JStr ''An unexpected error occurred while processing your request''),
                       (''statusCode'', number_of_nat 500)])) \<and>
   get_prop (buildErrorResponse example_env
               (AIServiceError ''AI response is not an array''
                 (Some [(''responseType'', JStr ''object'')]))) ''error'' =
     Inr (JStr ''AI response is not an array'')"
proof -
  have 1: "\<forall>a. PlainError ''socket hang up'' \<noteq> App a"
    by simp
  have 2: "AIServiceError ''AI response is not an array''
            (Some [(''responseType'', JStr ''object'')]) =
          App \<lparr>errClass = AIServiceErrorClass, message = ''AI response is not an array'',
               statusCode = 500, isOperational = True,
               errContext = Some [(''responseType'', JStr ''object'')]\<rparr>"
    by (simp add: AIServiceError_def)
  from handleError_error_field
      [of example_env "PlainError ''socket hang up''" fresh_response] 1
  have a: "res_sent (fst (handleError example_env (PlainError ''socket hang up'')
      fresh_response)) =
     Some (Some (JObj [(''error'',
                        JStr ''An unexpected error occurred while processing your request''),
                       (''statusCode'', number_of_nat 500)]))"
    by simp
  from handleError_error_field
      [of example_env "AIServiceError ''AI response is not an array''
                 (Some [(''responseType'', JStr ''object'')])" fresh_response] 2
  have b: "get_prop (buildErrorResponse example_env
               (AIServiceError ''AI response is not an array''
                 (Some [(''responseType'', JStr ''object'')]))) ''error'' =
     Inr (JStr ''AI response is not an array'')"
    by simp
  from a b show ?thesis by simp
qed

text \<open>
  C4 as stated fails: in production mode, the responder answers a
  \<open>ConfigurationError\<close>, which is flagged non-operational, with the error's own message,
  which is not the generic one.
\<close>

theorem handleError_error_field_counterexample:
  "isOperationalError
     (ConfigurationError ''Invalid API key provided to AIParserService''
       (Some [(''provided'', JBool False)])) = False \<and>
   env_NODE_ENV example_env = Some ''production'' \<and>
   res_sent (fst (handleError example_env
                    (ConfigurationError ''Invalid API key provided to AIParserService''
                      (Some [(''provided'', JBool False)]))
                    fresh_response)) =
     Some (Some (JObj [(''error'', JStr ''Invalid API key provided to AIParserService''),
                       (''statusCode'', number_of_nat 500)])) \<and>
   ''Invalid API key provided to AIParserService'' \<noteq>
     ''An unexpected error occurred while processing your request''"
  by (simp add: handleError_response buildErrorResponse_def ConfigurationError_def
      isOperationalError_def example_env_def)

section \<open>Validation of the model's shifts\<close>

lemma object_get_prop: "is_object x \<Longrightarrow> \<exists>v. get_prop x f = Inr v"
  by (auto simp add: is_object_cases)

lemma field_check:
  "get_prop x f = Inr v \<Longrightarrow> (\<not> truthy v \<or> typeof v \<noteq> ''string'') \<longleftrightarrow> \<not> field_ok x f"
  by (cases v) (simp_all add: field_ok_def)

lemma validateFields_ok:
  "is_object x \<Longrightarrow> validateFields i x fs = Inr () \<longleftrightarrow> list_all (field_ok x) fs"
proof (induction fs)
  case Nil
  then show ?case by simp
next
  case (Cons f fs)
  from Cons.prems obtain v where v: "get_prop x f = Inr v"
    using object_get_prop by blast
  show ?case
    using Cons v field_check [OF v] by auto
qed

lemma validateFields_error:
  "is_object x \<Longrightarrow> validateFields i x fs = Inl e \<Longrightarrow>
     \<exists>f v. find (\<lambda>f. \<not> field_ok x f) fs = Some f \<and> get_prop x f = Inr v \<and>
           e = invalidFieldError i f v"
proof (induction fs)
  case Nil
  then show ?case by simp
next
  case (Cons f fs)
  from Cons.prems obtain v where v: "get_prop x f = Inr v"
    using object_get_prop by blast
  show ?case
  proof (cases "field_ok x f")
    case True
    with Cons v field_check [OF v] show ?thesis by auto
  next
    case False
    with Cons.prems v field_check [OF v] show ?thesis by auto
  qed
qed

lemma shift_check:
  "validateFields i x requiredFields = Inl e \<Longrightarrow> is_object x \<Longrightarrow> first_violation i x e"
  by (drule (1) validateFields_error [rotated]) (auto simp add: first_violation_def)

lemma validateShifts_from_ok:
  "validateShifts_from i xs = Inr () \<longleftrightarrow> list_all shift_ok xs"
proof (induction xs arbitrary: i)
  case Nil
  then show ?case by simp
next
  case (Cons x xs)
  show ?case
  proof (cases "is_object x")
    case True
    then show ?thesis
      using Cons [of "Suc i"] validateFields_ok [OF True, of i requiredFields]
      by (cases "validateFields i x requiredFields")
        (auto simp add: shift_ok_def is_object_def)
  next
    case False
    then show ?thesis
      by (auto simp add: shift_ok_def is_object_def)
  qed
qed

lemma validateShifts_from_error:
  "validateShifts_from i xs = Inl e \<Longrightarrow>
     \<exists>k<length xs. (\<forall>j<k. shift_ok (xs ! j)) \<and> \<not> shift_ok (xs ! k) \<and>
                  first_violation (i + k) (xs ! k) e"
proof (induction xs arbitrary: i)
  case Nil
  then show ?case by simp
next
  case (Cons x xs)
  show ?case
  proof (cases "shift_ok x")
    case True
    then have obj: "is_object x" and "list_all (field_ok x) requiredFields"
      by (simp_all add: shift_ok_def)
    then have "validateFields i x requiredFields = Inr ()"
      using validateFields_ok by blast
    with Cons.prems obj have "validateShifts_from (Suc i) xs = Inl e"
      by (simp add: is_object_def)
    from Cons.IH [OF this] obtain k where
      k: "k < length xs" "\<forall>j<k. shift_ok (xs ! j)" "\<not> shift_ok (xs ! k)"
         "first_violation (Suc i + k) (xs ! k) e"
      by blast
    have "\<forall>j<Suc k. shift_ok ((x # xs) ! j)"
      using True k(2) by (simp add: nth_Cons split: nat.splits)
    with k show ?thesis
      by (intro exI [of _ "Suc k"]) simp
  next
    case False
    have "first_violation i x e"
    proof (cases "is_object x")
      case True
      with False have "validateFields i x requiredFields \<noteq> Inr ()"
        using validateFields_ok by (simp add: shift_ok_def)
      with Cons.prems True have "validateFields i x requiredFields = Inl e"
        by (cases "validateFields i x requiredFields") (simp_all add: is_object_def)
      then show ?thesis using True by (rule shift_check)
    next
      case False
      with Cons.prems show ?thesis
        by (auto simp add: first_violation_def is_object_def)
    qed
    with False show ?thesis
      by (intro exI [of _ 0]) simp
  qed
qed

lemma first_violation_AIServiceError:
  "first_violation i x e \<Longrightarrow> instance_of AIServiceErrorClass e \<and> error_status e = 500"
  by (auto simp add: first_violation_def notObjectError_def invalidFieldError_def
      AIServiceError_def instance_of_def error_status_def split: if_splits option.splits sum.splits)

lemma validateShifts_error_class:
  "validateShifts xs = Inl e \<Longrightarrow> instance_of AIServiceErrorClass e \<and> error_status e = 500"
  unfolding validateShifts_def
  by (drule validateShifts_from_error) (blast dest: first_violation_AIServiceError)

text \<open>
  C3, as the code has it. Validation of the array succeeds exactly when every element
  is well formed: an object (not \<open>null\<close>) each of whose fields \<open>date\<close>, \<open>startTime\<close>,
  \<open>endTime\<close> is a non-empty string. Otherwise it throws an \<open>AIServiceError\<close> for the
  first element that is not well formed, naming its index and, unless the element is no
  object, the first of its fields that is not a non-empty string.
\<close>

theorem validateShifts_first_violation:
  "(validateShifts shifts = Inr () \<longleftrightarrow> (\<forall>s \<in> set shifts. shift_ok s)) \<and>
   (\<forall>e. validateShifts shifts = Inl e \<longrightarrow>
      instance_of AIServiceErrorClass e \<and>
      (\<exists>i<length shifts. (\<forall>j<i. shift_ok (shifts ! j)) \<and> \<not> shift_ok (shifts ! i) \<and>
                         first_violation i (shifts ! i) e))"
proof (intro conjI allI impI)
  show "validateShifts shifts = Inr () \<longleftrightarrow> (\<forall>s \<in> set shifts. shift_ok s)"
    by (simp add: validateShifts_def validateShifts_from_ok list_all_iff)
  fix e
  assume e: "validateShifts shifts = Inl e"
  then show "instance_of AIServiceErrorClass e"
    by (simp add: validateShifts_error_class)
  from e show "\<exists>i<length shifts. (\<forall>j<i. shift_ok (shifts ! j)) \<and> \<not> shift_ok (shifts ! i) \<and>
                         first_violation i (shifts ! i) e"
    using validateShifts_from_error [of 0 shifts e] by (simp add: validateShifts_def)
qed

theorem validateShifts_first_violation_witness:
  "validateShifts [example_shift, no_endTime_shift] =
     Inl (invalidFieldError 1 ''endTime'' JUndefined) \<and>
   instance_of AIServiceErrorClass (invalidFieldError 1 ''endTime'' JUndefined) \<and>
   validateShifts [example_shift] = Inr () \<and> shift_ok example_shift"
proof -
  have 1: "validateShifts [example_shift, no_endTime_shift] =
      Inl (invalidFieldError 1 ''endTime'' JUndefined)"
    by (simp add: validateShifts_def requiredFields_def example_shift_def no_endTime_shift_def)
  have 2: "validateShifts [example_shift] = Inr ()"
    by (simp add: validateShifts_def requiredFields_def example_shift_def)
  from 1 2 validateShifts_first_violation [of "[example_shift, no_endTime_shift]"]
    validateShifts_first_violation [of "[example_shift]"]
  show ?thesis by simp
qed

text \<open>
  C3 as stated fails: a shift whose three fields are present and of string type, the
  first of them the empty string, is rejected.
\<close>

theorem validateShifts_first_violation_counterexample:
  "get_prop empty_date_shift ''date'' = Inr (JStr '''') \<and>
   get_prop empty_date_shift ''startTime'' = Inr (JStr ''09:00'') \<and>
   get_prop empty_date_shift ''endTime'' = Inr (JStr ''17:00'') \<and>
   typeof (JStr '''') = ''string'' \<and>
   validateShifts [empty_date_shift] = Inl (invalidFieldError 0 ''date'' (JStr ''''))"
  by (simp add: validateShifts_def requiredFields_def empty_date_shift_def)

section \<open>The successful response\<close>

lemma handleError_eq:
  "handleError env e res =
     (res\<lparr>res_statusCode := error_status e, res_sent := Some (Some (buildErrorResponse env e))\<rparr>,
      logError e)"
  by (simp add: handleError_def Let_def json_def status_def error_status_def)

lemma validateRequiredFields_error_status:
  "validateRequiredFields body = Inl e \<Longrightarrow> error_status e \<noteq> 200"
  by (auto simp add: validateRequiredFields_def ValidationError_def error_status_def
      dest: get_prop_error Object_keys_error split: sum.splits if_splits jsval.splits)

lemma validateRequest_error_status:
  "validateRequest req = Inl e \<Longrightarrow> error_status e \<noteq> 200"
  by (auto simp add: validateRequest_def validateMethod_def validateBody_def
      ValidationError_def MethodNotAllowedError_def error_status_def
      dest: validateRequiredFields_error_status split: sum.splits if_splits)

lemma validateRequest_success:
  assumes "validateRequest req = Inr b"
  shows "b = req_body req \<and> req_method req = Some ''POST'' \<and>
         (\<exists>t. get_prop b ''text'' = Inr (JStr t) \<and> trim t \<noteq> '''')"
proof -
  from assms have b: "b = req_body req" and m: "req_method req = Some ''POST''"
    and "validateRequiredFields (req_body req) = Inr ()"
    by (auto simp add: validateRequest_def validateMethod_def split: sum.splits if_splits)
  then show ?thesis
    using required_fields_pass by blast
qed

lemma createAIParserService_error_status:
  "createAIParserService k m = Inl e \<Longrightarrow> error_status e = 500"
  by (auto simp add: createAIParserService_def new_AIParserService_def ConfigurationError_def
      error_status_def split: if_splits)

lemma createAIParserService_success:
  "createAIParserService k m = Inr svc \<Longrightarrow> genAI svc = k \<and> modelName svc = m"
  by (auto simp add: createAIParserService_def new_AIParserService_def split: if_splits)

lemma generateShifts_error_status:
  "generateShifts pf svc t = (Inl e, calls) \<Longrightarrow> error_status e = 500"
  by (auto simp add: generateShifts_def Let_def AIServiceError_def error_status_def
      dest: validateShifts_error_class
      split: model_reply.splits if_splits sum.splits jsval.splits)

lemma generateShifts_success:
  "generateShifts pf svc t = (Inr v, calls) \<Longrightarrow>
     \<exists>r xs. generateContent pf (genAI svc) (modelName svc) (buildPrompt (currentYear pf) t) = Text r \<and>
            JSON_parse pf r = Inr v \<and> v = JArr xs \<and> validateShifts xs = Inr ()"
  by (auto simp add: generateShifts_def Let_def
      split: model_reply.splits if_splits sum.splits jsval.splits)

lemma parseShifts_error_status:
  "parseShifts pf svc text = (Inl e, calls) \<Longrightarrow> error_status e = 500"
  by (auto simp add: parseShifts_def AIServiceError_def error_status_def
      dest: generateShifts_error_status split: if_splits jsval.splits)

lemma parseShifts_success:
  "parseShifts pf svc (JStr t) = (Inr v, calls) \<Longrightarrow> generateShifts pf svc t = (Inr v, calls)"
  by (auto simp add: parseShifts_def split: if_splits)

text \<open>
  A response with status 200 and a JSON body comes from the last step of the handler
  and from no other: the request was a POST whose body holds a non-blank string
  \<open>text\<close>, the model replied to the prompt built from it, and the body is the value
  parsed from that reply, an array that passed \<open>validateShifts\<close>.
\<close>

lemma handler_success:
  assumes "res_statusCode (fst (handler pf env config req res)) = 200"
    and "res_sent (fst (handler pf env config req res)) = Some (Some body)"
  shows "\<exists>t r shifts.
           req_method req = Some ''POST'' \<and>
           get_prop (req_body req) ''text'' = Inr (JStr t) \<and> trim t \<noteq> '''' \<and>
           generateContent pf (GEMINI_API_KEY config) (AI_MODEL_NAME config)
             (buildPrompt (currentYear pf) t) = Text r \<and>
           JSON_parse pf r = Inr body \<and> body = JArr shifts \<and> validateShifts shifts = Inr ()"
proof -
  define res1 where
    "res1 = setCORSHeaders res
              (validateOrigin (req_headers req ''origin'') (ALLOWED_ORIGINS config))"
  have not_options: "req_method req \<noteq> Some ''OPTIONS''"
  proof
    assume "req_method req = Some ''OPTIONS''"
    then have "res_sent (fst (handler pf env config req res)) = Some None"
      by (simp add: handler_def corsMiddleware_def Let_def status_def end_response_def)
    with assms(2) show False by simp
  qed
  then have cors: "corsMiddleware req res \<lparr>allowedOrigins = ALLOWED_ORIGINS config\<rparr> = (False, res1)"
    by (simp add: corsMiddleware_def Let_def res1_def)
  show ?thesis
  proof (cases "validateRequest req")
    case (Inl e)
    with cors assms(1) validateRequest_error_status [OF Inl] show ?thesis
      by (simp add: handler_def handleError_eq)
  next
    case (Inr b)
    from validateRequest_success [OF Inr] obtain t where
      b: "b = req_body req" and m: "req_method req = Some ''POST''" and
      t: "get_prop b ''text'' = Inr (JStr t)" "trim t \<noteq> ''''"
      by blast
    show ?thesis
    proof (cases "createAIParserService (GEMINI_API_KEY config) (AI_MODEL_NAME config)")
      case (Inl e)
      with cors Inr t assms(1) createAIParserService_error_status [OF Inl] show ?thesis
        by (simp add: handler_def handleError_eq)
    next
      case svc: (Inr aiParser)
      obtain result calls where p: "parseShifts pf aiParser (JStr t) = (result, calls)"
        by (cases "parseShifts pf aiParser (JStr t)")
      show ?thesis
      proof (cases result)
        case (Inl e)
        with cors Inr t svc p assms(1) parseShifts_error_status [of pf aiParser "JStr t" e calls]
        show ?thesis
          by (simp add: handler_def handleError_eq)
      next
        case (Inr shifts)
        with cors \<open>validateRequest req = Inr b\<close> t svc p assms(2) have "shifts = body"
          by (simp add: handler_def json_def status_def)
        with p Inr have "generateShifts pf aiParser t = (Inr body, calls)"
          using parseShifts_success by simp
        from generateShifts_success [OF this] createAIParserService_success [OF svc] b m t
        show ?thesis by auto
      qed
    qed
  qed
qed

subsection \<open>Two example runs\<close>

lemma example_text_not_blank: "trim example_text = example_text \<and> example_text \<noteq> ''''"
  by (simp add: example_text_def trim_def is_ws_def)

lemma example_reply_not_blank: "trim example_reply \<noteq> '''' \<and> example_reply \<noteq> ''''"
  by (simp add: example_reply_def trim_def is_ws_def)

lemma example_shifts_valid: "validateShifts [example_shift] = Inr ()"
  by (simp add: validateShifts_def requiredFields_def example_shift_def)

lemma example_request_valid: "validateRequest example_request = Inr (req_body example_request)"
  using example_text_not_blank
  by (simp add: example_request_def post_request_def validateRequest_def validateMethod_def
      validateBody_def validateRequiredFields_def isParseRequest_def)

lemma other_request_valid: "validateRequest other_request = Inr (req_body other_request)"
  using example_text_not_blank
  by (simp add: other_request_def validateRequest_def validateMethod_def
      validateBody_def validateRequiredFields_def isParseRequest_def)

lemma handler_run:
  assumes "req_method req \<noteq> Some ''OPTIONS''"
    and "validateRequest req = Inr b"
    and "get_prop b ''text'' = Inr (JStr t)"
    and "createAIParserService (GEMINI_API_KEY config) (AI_MODEL_NAME config) = Inr svc"
    and "parseShifts pf svc (JStr t) = (Inr v, calls)"
  shows "res_statusCode (fst (handler pf env config req res)) = 200 \<and>
         res_sent (fst (handler pf env config req res)) = Some (Some v)"
  using assms by (simp add: handler_def corsMiddleware_def Let_def json_def status_def)

lemma example_parse:
  assumes "generateContent pf (genAI svc) (modelName svc) (buildPrompt (currentYear pf) example_text) =
             Text example_reply"
    and "JSON_parse pf = example_JSON_parse"
  shows "parseShifts pf svc (JStr example_text) =
           (Inr (JArr [example_shift]),
            [Invoke_generateContent (genAI svc) (modelName svc)
               (buildPrompt (currentYear pf) example_text)])"
  using assms example_text_not_blank example_reply_not_blank example_shifts_valid
  by (simp add: parseShifts_def generateShifts_def Let_def example_JSON_parse_def)

lemma example_services:
  "createAIParserService (GEMINI_API_KEY example_config) (AI_MODEL_NAME example_config) =
     Inr \<lparr>genAI = ''test-key'', modelName = DEFAULT_MODEL_NAME\<rparr> \<and>
   createAIParserService (GEMINI_API_KEY other_config) (AI_MODEL_NAME other_config) =
     Inr \<lparr>genAI = ''other-key'', modelName = ''gemini-1.5-flash''\<rparr>"
  by (simp add: createAIParserService_def new_AIParserService_def example_config_def
      other_config_def DEFAULT_MODEL_NAME_def trim_def is_ws_def)

lemma example_run:
  "res_statusCode (fst (handler example_platform example_env example_config
                          example_request fresh_response)) = 200 \<and>
   res_sent (fst (handler example_platform example_env example_config
                    example_request fresh_response)) = Some (Some (JArr [example_shift]))"
proof (rule handler_run)
  show "req_method example_request \<noteq> Some ''OPTIONS''"
    by (simp add: example_request_def post_request_def)
  show "validateRequest example_request = Inr (req_body example_request)"
    by (rule example_request_valid)
  show "get_prop (req_body example_request) ''text'' = Inr (JStr example_text)"
    by (simp add: example_request_def post_request_def)
  show "createAIParserService (GEMINI_API_KEY example_config) (AI_MODEL_NAME example_config) =
     Inr \<lparr>genAI = ''test-key'', modelName = DEFAULT_MODEL_NAME\<rparr>"
    by (simp add: example_services)
  show "parseShifts example_platform \<lparr>genAI = ''test-key'', modelName = DEFAULT_MODEL_NAME\<rparr>
      (JStr example_text) =
      (Inr (JArr [example_shift]),
       [Invoke_generateContent
          (genAI \<lparr>genAI = ''test-key'', modelName = DEFAULT_MODEL_NAME\<rparr>)
          (modelName \<lparr>genAI = ''test-key'', modelName = DEFAULT_MODEL_NAME\<rparr>)
          (buildPrompt (currentYear example_platform) example_text)])"
    by (rule example_parse) (simp_all add: example_platform_def)
qed

lemma other_run:
  "res_statusCode (fst (handler other_platform keyless_env other_config
                          other_request fresh_response)) = 200 \<and>
   res_sent (fst (handler other_platform keyless_env other_config
                    other_request fresh_response)) = Some (Some (JArr [example_shift]))"
proof (rule handler_run)
  show "req_method other_request \<noteq> Some ''OPTIONS''"
    by (simp add: other_request_def)
  show "validateRequest other_request = Inr (req_body other_request)"
    by (rule other_request_valid)
  show "get_prop (req_body other_request) ''text'' = Inr (JStr example_text)"
    by (simp add: other_request_def)
  show "createAIParserService (GEMINI_API_KEY other_config) (AI_MODEL_NAME other_config) =
     Inr \<lparr>genAI = ''other-key'', modelName = ''gemini-1.5-flash''\<rparr>"
    by (simp add: example_services)
  show "parseShifts other_platform \<lparr>genAI = ''other-key'', modelName = ''gemini-1.5-flash''\<rparr>
      (JStr example_text) =
      (Inr (JArr [example_shift]),
       [Invoke_generateContent
          (genAI \<lparr>genAI = ''other-key'', modelName = ''gemini-1.5-flash''\<rparr>)
          (modelName \<lparr>genAI = ''other-key'', modelName = ''gemini-1.5-flash''\<rparr>)
          (buildPrompt (currentYear other_platform) example_text)])"
    by (rule example_parse) (simp_all add: other_platform_def)
qed

section \<open>Shifts that reach the client\<close>

text \<open>
  C10. The local validation rejects, with an \<open>AIServiceError\<close>, every array that has an
  element one of whose required fields is the empty string; and in every response with
  status 200 and a JSON body, the body is an array each of whose elements has a
  non-empty string in each of \<open>date\<close>, \<open>startTime\<close> and \<open>endTime\<close>.
\<close>

theorem success_shifts_nonempty_fields:
  "(\<forall>xs. (\<exists>s \<in> set xs. \<exists>f \<in> set requiredFields. get_prop s f = Inr (JStr '''')) \<longrightarrow>
      (\<exists>e. validateShifts xs = Inl e \<and> instance_of AIServiceErrorClass e)) \<and>
   (res_statusCode (fst (handler pf env config req res)) = 200 \<and>
    res_sent (fst (handler pf env config req res)) = Some (Some body) \<longrightarrow>
      (\<exists>shifts. body = JArr shifts \<and>
         (\<forall>s \<in> set shifts. \<forall>f \<in> set requiredFields.
            \<exists>v. get_prop s f = Inr (JStr v) \<and> v \<noteq> '''')))"
proof (intro conjI allI impI)
  fix xs
  assume "\<exists>s \<in> set xs. \<exists>f \<in> set requiredFields. get_prop s f = Inr (JStr '''')"
  then obtain s f where "s \<in> set xs" "f \<in> set requiredFields" "\<not> field_ok s f"
    by (auto simp add: field_ok_def)
  then have "\<not> list_all shift_ok xs"
    by (auto simp add: shift_ok_def list_all_iff)
  then have "validateShifts xs \<noteq> Inr ()"
    by (simp add: validateShifts_def validateShifts_from_ok)
  then obtain e where "validateShifts xs = Inl e"
    by (cases "validateShifts xs") auto
  then show "\<exists>e. validateShifts xs = Inl e \<and> instance_of AIServiceErrorClass e"
    using validateShifts_error_class by blast
next
  assume "res_statusCode (fst (handler pf env config req res)) = 200 \<and>
    res_sent (fst (handler pf env config req res)) = Some (Some body)"
  then obtain shifts where body: "body = JArr shifts" and "validateShifts shifts = Inr ()"
    using handler_success by blast
  then have ok: "\<forall>s \<in> set shifts. shift_ok s"
    by (simp add: validateShifts_def validateShifts_from_ok list_all_iff)
  have "\<exists>v. get_prop s f = Inr (JStr v) \<and> v \<noteq> ''''"
    if "s \<in> set shifts" "f \<in> set requiredFields" for s f
  proof -
    from that ok have "field_ok s f"
      by (auto simp add: shift_ok_def list_all_iff)
    then show ?thesis
      by (auto simp add: field_ok_def split: sum.splits jsval.splits)
  qed
  with body show "\<exists>shifts. body = JArr shifts \<and>
         (\<forall>s \<in> set shifts. \<forall>f \<in> set requiredFields.
            \<exists>v. get_prop s f = Inr (JStr v) \<and> v \<noteq> '''')"
    by blast
qed

theorem success_shifts_nonempty_fields_witness:
  "res_statusCode (fst (handler example_platform example_env example_config
                          example_request fresh_response)) = 200 \<and>
   res_sent (fst (handler example_platform example_env example_config
                    example_request fresh_response)) = Some (Some (JArr [example_shift])) \<and>
   (\<exists>v. get_prop example_shift ''endTime'' = Inr (JStr v) \<and> v \<noteq> '''') \<and>
   get_prop empty_date_shift ''date'' = Inr (JStr '''') \<and>
   (\<exists>e. validateShifts [empty_date_shift] = Inl e \<and> instance_of AIServiceErrorClass e)"
proof -
  note inst = success_shifts_nonempty_fields [of example_platform example_env example_config
      example_request fresh_response "JArr [example_shift]"]
  have d: "get_prop empty_date_shift ''date'' = Inr (JStr '''')"
    by (simp add: empty_date_shift_def)
  have "''date'' \<in> set requiredFields"
    by (simp add: requiredFields_def)
  with d have "\<exists>s \<in> set [empty_date_shift]. \<exists>f \<in> set requiredFields.
      get_prop s f = Inr (JStr '''')"
    by auto
  with inst have rejected:
    "\<exists>e. validateShifts [empty_date_shift] = Inl e \<and> instance_of AIServiceErrorClass e"
    by blast
  from inst example_run have "\<forall>f \<in> set requiredFields.
      \<exists>v. get_prop example_shift f = Inr (JStr v) \<and> v \<noteq> ''''"
    by auto
  moreover have "''endTime'' \<in> set requiredFields"
    by (simp add: requiredFields_def)
  ultimately have "\<exists>v. get_prop example_shift ''endTime'' = Inr (JStr v) \<and> v \<noteq> ''''"
    by blast
  with example_run d rejected show ?thesis by blast
qed

section \<open>Determinism of the successful response\<close>

text \<open>
  C9. Take two invocations of the handler, whatever their platforms, environments,
  configurations, requests and responses so far, that both answer with status 200 and
  a JSON body, whose requests hold the same \<open>text\<close>, and in which the model gave the same
  reply to the prompt built from that text; \<open>JSON.parse\<close> is the same function in both.
  Then the two bodies are the same value, the one \<open>JSON.parse\<close> makes of the reply (and
  so the same JSON text).
\<close>

theorem handler_deterministic:
  assumes "res_statusCode (fst (handler pf1 env1 config1 req1 res1)) = 200"
    and "res_sent (fst (handler pf1 env1 config1 req1 res1)) = Some (Some body1)"
    and "res_statusCode (fst (handler pf2 env2 config2 req2 res2)) = 200"
    and "res_sent (fst (handler pf2 env2 config2 req2 res2)) = Some (Some body2)"
    and "get_prop (req_body req1) ''text'' = Inr (JStr t)"
    and "get_prop (req_body req2) ''text'' = Inr (JStr t)"
    and "generateContent pf1 (GEMINI_API_KEY config1) (AI_MODEL_NAME config1)
           (buildPrompt (currentYear pf1) t) = Text r"
    and "generateContent pf2 (GEMINI_API_KEY config2) (AI_MODEL_NAME config2)
           (buildPrompt (currentYear pf2) t) = Text r"
    and "JSON_parse pf1 = JSON_parse pf2"
  shows "body1 = body2 \<and> JSON_parse pf1 r = Inr body1"
proof -
  from handler_success [OF assms(1,2)] assms(5,7) have 1: "JSON_parse pf1 r = Inr body1"
    by auto
  from handler_success [OF assms(3,4)] assms(6,8) have 2: "JSON_parse pf2 r = Inr body2"
    by auto
  from 1 2 assms(9) show ?thesis by simp
qed

theorem handler_deterministic_witness:
  "res_sent (fst (handler example_platform example_env example_config
                    example_request fresh_response)) =
   res_sent (fst (handler other_platform keyless_env other_config
                    other_request fresh_response)) \<and>
   res_sent (fst (handler example_platform example_env example_config
                    example_request fresh_response)) = Some (Some (JArr [example_shift])) \<and>
   JSON_parse example_platform example_reply = Inr (JArr [example_shift])"
proof -
  have t1: "get_prop (req_body example_request) ''text'' = Inr (JStr example_text)"
    by (simp add: example_request_def post_request_def)
  have t2: "get_prop (req_body other_request) ''text'' = Inr (JStr example_text)"
    by (simp add: other_request_def)
  have r1: "generateContent example_platform (GEMINI_API_KEY example_config)
      (AI_MODEL_NAME example_config) (buildPrompt (currentYear example_platform) example_text) =
      Text example_reply"
    by (simp add: example_platform_def)
  have r2: "generateContent other_platform (GEMINI_API_KEY other_config)
      (AI_MODEL_NAME other_config) (buildPrompt (currentYear other_platform) example_text) =
      Text example_reply"
    by (simp add: other_platform_def)
  have p: "JSON_parse example_platform = JSON_parse other_platform"
    by (simp add: example_platform_def other_platform_def)
  from handler_deterministic [OF example_run [THEN conjunct1] example_run [THEN conjunct2]
      other_run [THEN conjunct1] other_run [THEN conjunct2] t1 t2 r1 r2 p]
    example_run other_run
  show ?thesis by simp
qed

end
